theory Spec2Isabelle
  imports Main "HOL-Library.Sublist"
begin

section \<open>The sidebar tree (sidebars.ts)\<close>

text \<open>
  An entry of a sidebar is written in one of three ways in \<^verbatim>\<open>sidebars.ts\<close>:
  a bare string inside an \<^verbatim>\<open>items\<close> list (a doc id), an object
  \<^verbatim>\<open>{type: 'doc', id, label}\<close>, or an object
  \<^verbatim>\<open>{type: 'category', label, items}\<close>.
\<close>

datatype sidebar_item =
    DocId string
  | Doc string string
  | Category string "sidebar_item list"

type_synonym sidebars_config = "(string \<times> sidebar_item list) list"

definition sdkSidebar :: "sidebar_item list" where
  "sdkSidebar =
    [ Doc ''sdk/intro'' ''Overview'',
      Category ''Getting Started''
        [ DocId ''sdk/getting-started/overview'',
          DocId ''sdk/getting-started/installation'',
          DocId ''sdk/getting-started/quickstart'' ],
      Category ''Core Concepts''
        [ DocId ''sdk/core-concepts/architecture'',
          DocId ''sdk/core-concepts/authentication'',
          DocId ''sdk/core-concepts/accounts'',
          DocId ''sdk/core-concepts/transactions'',
          DocId ''sdk/core-concepts/events'' ],
      Category ''Contract Interaction''
        [ DocId ''sdk/contracts/deploying'',
          DocId ''sdk/contracts/calling-methods'',
          DocId ''sdk/contracts/querying-state'',
          DocId ''sdk/contracts/metadata'' ],
      Category ''TypeScript SDK''
        [ DocId ''sdk/typescript/setup'',
          DocId ''sdk/typescript/browser-extensions'',
          DocId ''sdk/typescript/react-integration'',
          DocId ''sdk/typescript/api-reference'',
          DocId ''sdk/typescript/examples'' ],
      Category ''Rust SDK''
        [ DocId ''sdk/rust/setup'',
          DocId ''sdk/rust/cli-tools'',
          DocId ''sdk/rust/async-patterns'',
          DocId ''sdk/rust/api-reference'',
          DocId ''sdk/rust/examples'' ],
      Category ''Examples''
        [ DocId ''sdk/examples/sign-in-with-glin'',
          DocId ''sdk/examples/deploy-contract'',
          DocId ''sdk/examples/build-indexer'',
          DocId ''sdk/examples/create-cli-tool'' ] ]"

definition blockchainSidebar :: "sidebar_item list" where
  "blockchainSidebar =
    [ Doc ''blockchain/intro'' ''Overview'',
      Category ''Running a Node''
        [ DocId ''blockchain/node/installation'',
          DocId ''blockchain/node/configuration'',
          DocId ''blockchain/node/development'' ],
      Category ''Validators''
        [ DocId ''blockchain/validators/setup'',
          DocId ''blockchain/validators/keys'',
          DocId ''blockchain/validators/staking'' ],
      Category ''Architecture''
        [ DocId ''blockchain/architecture/overview'',
          DocId ''blockchain/architecture/pallets'',
          DocId ''blockchain/architecture/runtime'' ] ]"

definition sidebars :: sidebars_config where
  "sidebars = [(''sdkSidebar'', sdkSidebar), (''blockchainSidebar'', blockchainSidebar)]"

text \<open>The doc ids an entry refers to, in the order they are written.\<close>

fun item_doc_ids :: "sidebar_item \<Rightarrow> string list" where
  "item_doc_ids (DocId p) = [p]"
| "item_doc_ids (Doc p l) = [p]"
| "item_doc_ids (Category l items) = concat (map item_doc_ids items)"

definition sidebar_doc_ids :: "sidebar_item list \<Rightarrow> string list" where
  "sidebar_doc_ids items = concat (map item_doc_ids items)"

definition sidebar_keys :: "sidebars_config \<Rightarrow> string list" where
  "sidebar_keys sb = map fst sb"

definition all_sidebar_doc_ids :: "sidebars_config \<Rightarrow> string list" where
  "all_sidebar_doc_ids sb = concat (map (\<lambda>(k, items). sidebar_doc_ids items) sb)"

section \<open>The site configuration (docusaurus.config.ts)\<close>

text \<open>
  The configuration module evaluates one object literal. Every field of the literal is a
  constant except \<^verbatim>\<open>themeConfig.footer.copyright\<close>, a template literal that embeds
  \<^verbatim>\<open>new Date().getFullYear()\<close>: the module reads the system clock when it is
  evaluated. The model makes that read explicit: the configuration is a function of the
  year the clock returns.
\<close>

text \<open>
  A navbar item is written \<^verbatim>\<open>{type: 'docSidebar', sidebarId, position, label}\<close> or
  \<^verbatim>\<open>{href, label, position}\<close> (no \<^verbatim>\<open>type\<close>: the default item); a footer item is
  \<^verbatim>\<open>{label, to}\<close> (an internal target) or \<^verbatim>\<open>{label, href}\<close> (an external one).
\<close>

datatype navbar_item =
    DocSidebar string string string
  | NavHref string string string

fun navbar_item_type :: "navbar_item \<Rightarrow> string" where
  "navbar_item_type (DocSidebar sid pos lbl) = ''docSidebar''"
| "navbar_item_type (NavHref href lbl pos) = ''default''"

fun sidebarId :: "navbar_item \<Rightarrow> string option" where
  "sidebarId (DocSidebar sid pos lbl) = Some sid"
| "sidebarId (NavHref href lbl pos) = None"

datatype footer_item =
    FooterTo string string
  | FooterHref string string

text \<open>The two themes the module imports from \<^verbatim>\<open>prism-react-renderer\<close>.\<close>

datatype imported_theme = PrismThemes_github | PrismThemes_vsDark

record docs_options =
  routeBasePath :: string
  sidebarPath :: string
  editUrl :: string
  showLastUpdateTime :: bool
  showLastUpdateAuthor :: bool

text \<open>
  The options of a plugin that the configuration does not spell out are a list of
  key-value pairs. A plugin of the preset that is set to \<^verbatim>\<open>false\<close> is \<open>None\<close>.
\<close>

type_synonym blog_options = "(string \<times> string) list"

record theme_options =
  customCss :: string

record preset_options =
  docs :: "docs_options option"
  blog :: "blog_options option"
  theme :: theme_options

record logo =
  alt :: string
  src :: string

record navbar =
  navbar_title :: string
  logo :: logo
  navbar_items :: "navbar_item list"

record footer =
  style :: string
  links :: "(string \<times> footer_item list) list"
  copyright :: string

record prism =
  prism_theme :: imported_theme
  darkTheme :: imported_theme
  additionalLanguages :: "string list"

record algolia =
  appId :: string
  apiKey :: string
  indexName :: string
  contextualSearch :: bool

record color_mode =
  defaultMode :: string
  respectPrefersColorScheme :: bool

record theme_config =
  image :: string
  colorMode :: color_mode
  navbar :: navbar
  footer :: footer
  prism :: prism
  algolia :: algolia

record future_flags =
  v4 :: bool

record i18n_config =
  defaultLocale :: string
  locales :: "string list"

record config =
  title :: string
  tagline :: string
  favicon :: string
  future :: future_flags
  url :: string
  baseUrl :: string
  organizationName :: string
  projectName :: string
  onBrokenLinks :: string
  onBrokenMarkdownLinks :: string
  i18n :: i18n_config
  presets :: "(string \<times> preset_options) list"
  themeConfig :: theme_config

text \<open>
  The template literal turns the number \<^verbatim>\<open>getFullYear()\<close> returns into its decimal
  digits, with a minus sign before a negative year.
\<close>

definition digit_char :: "nat \<Rightarrow> char" where
  "digit_char d = ''0123456789'' ! (d mod 10)"

fun digits :: "nat \<Rightarrow> string" where
  "digits n = (if n < 10 then [digit_char n] else digits (n div 10) @ [digit_char (n mod 10)])"

definition number_to_string :: "int \<Rightarrow> string" where
  "number_to_string i = (if i < 0 then CHR ''-'' # digits (nat (- i)) else digits (nat i))"

text \<open>
  The copyright sign of the source file is kept as the bytes the file holds
  (\<^verbatim>\<open>C3 82 C2 A9\<close>).
\<close>

definition copyright_text :: "int \<Rightarrow> string" where
  "copyright_text year =
     ''Copyright '' @ [CHR 0xC3, CHR 0x82, CHR 0xC2, CHR 0xA9] @ '' '' @ number_to_string year
       @ '' GLIN AI. Built with Docusaurus.''"

definition classic_options :: preset_options where
  "classic_options =
    \<lparr> docs = Some
        \<lparr> routeBasePath = ''/'',
          sidebarPath = ''./sidebars.ts'',
          editUrl = ''https://github.com/glin-ai/glin-docs/tree/main/'',
          showLastUpdateTime = True,
          showLastUpdateAuthor = True \<rparr>,
      blog = None,
      theme = \<lparr> customCss = ''./src/css/custom.css'' \<rparr> \<rparr>"

definition site_navbar :: navbar where
  "site_navbar =
    \<lparr> navbar_title = ''GLIN Docs'',
      logo = \<lparr> alt = ''GLIN Logo'', src = ''img/glin-coin.svg'' \<rparr>,
      navbar_items =
        [ DocSidebar ''networkSidebar'' ''left'' ''Network'',
          DocSidebar ''sdkSidebar'' ''left'' ''SDK'',
          DocSidebar ''federatedLearningSidebar'' ''left'' ''Federated Learning'',
          DocSidebar ''toolsSidebar'' ''left'' ''Tools'',
          DocSidebar ''blockchainSidebar'' ''left'' ''Blockchain'',
          NavHref ''https://glin.ai'' ''Website'' ''right'',
          NavHref ''https://github.com/glin-ai'' ''GitHub'' ''right'' ] \<rparr>"

definition footer_links :: "(string \<times> footer_item list) list" where
  "footer_links =
    [ (''Documentation'',
        [ FooterTo ''SDK Overview'' ''/sdk/intro'',
          FooterTo ''TypeScript SDK'' ''/sdk/typescript/setup'',
          FooterTo ''Rust SDK'' ''/sdk/rust/setup'' ]),
      (''Developers'',
        [ FooterHref ''GitHub'' ''https://github.com/glin-ai'',
          FooterHref ''NPM Package'' ''https://www.npmjs.com/package/@glin-ai/sdk'',
          FooterHref ''Crates.io'' ''https://crates.io/crates/glin-client'' ]),
      (''Community'',
        [ FooterHref ''Discord'' ''https://discord.gg/glin-ai'',
          FooterHref ''Twitter'' ''https://twitter.com/glin_ai'',
          FooterHref ''Telegram'' ''https://t.me/glin_ai'' ]),
      (''More'',
        [ FooterHref ''Website'' ''https://glin.ai'',
          FooterHref ''Explorer'' ''https://explorer.glin.ai'',
          FooterHref ''Testnet'' ''https://testnet.glin.ai'' ]) ]"

definition site_theme_config :: "int \<Rightarrow> theme_config" where
  "site_theme_config year =
    \<lparr> image = ''img/glin-coin.svg'',
      colorMode = \<lparr> defaultMode = ''dark'', respectPrefersColorScheme = True \<rparr>,
      navbar = site_navbar,
      footer = \<lparr> style = ''dark'', links = footer_links, copyright = copyright_text year \<rparr>,
      prism =
        \<lparr> prism_theme = PrismThemes_github,
          darkTheme = PrismThemes_vsDark,
          additionalLanguages = [''rust'', ''toml'', ''bash'', ''json''] \<rparr>,
      algolia =
        \<lparr> appId = ''YOUR_APP_ID'',
          apiKey = ''YOUR_SEARCH_API_KEY'',
          indexName = ''glin'',
          contextualSearch = True \<rparr> \<rparr>"

definition config :: "int \<Rightarrow> config" where
  "config year =
    \<lparr> title = ''GLIN Documentation'',
      tagline = ''Build on GLIN Network - Decentralized AI Training Platform'',
      favicon = ''img/glin-coin.svg'',
      future = \<lparr> v4 = True \<rparr>,
      url = ''https://docs.glin.ai'',
      baseUrl = ''/'',
      organizationName = ''glin-ai'',
      projectName = ''glin-docs'',
      onBrokenLinks = ''throw'',
      onBrokenMarkdownLinks = ''warn'',
      i18n = \<lparr> defaultLocale = ''en'', locales = [''en''] \<rparr>,
      presets = [(''classic'', classic_options)],
      themeConfig = site_theme_config year \<rparr>"

text \<open>The configuration with another copyright line in its footer, all else unchanged.\<close>

definition with_copyright :: "string \<Rightarrow> config \<Rightarrow> config" where
  "with_copyright c cfg =
     cfg\<lparr>themeConfig := (themeConfig cfg)\<lparr>footer := (footer (themeConfig cfg))\<lparr>copyright := c\<rparr>\<rparr>\<rparr>"

section \<open>The site generator, as far as the configuration speaks of it\<close>

text \<open>
  Modelled from the spec: the site generator is an external collaborator whose code is
  not part of the repository. The specification says of it that a document at a given
  path is served at the corresponding route under the configured base path. The
  definitions of this section state just that much.
\<close>

definition is_slash :: "char \<Rightarrow> bool" where
  "is_slash c = (c = CHR ''/'')"

definition join_url :: "string \<Rightarrow> string \<Rightarrow> string" where
  "join_url a b = rev (dropWhile is_slash (rev a)) @ ''/'' @ dropWhile is_slash b"

definition doc_route :: "string \<Rightarrow> docs_options \<Rightarrow> string \<Rightarrow> string" where
  "doc_route base opts p = join_url (join_url base (routeBasePath opts)) p"

definition docs_plugin_options :: "config \<Rightarrow> docs_options list" where
  "docs_plugin_options cfg =
     concat (map (\<lambda>(name, opts). case docs opts of None \<Rightarrow> [] | Some d \<Rightarrow> [d]) (presets cfg))"

definition site_doc_routes :: "config \<Rightarrow> string list \<Rightarrow> string list" where
  "site_doc_routes cfg ids =
     concat (map (\<lambda>d. map (doc_route (baseUrl cfg) d) ids) (docs_plugin_options cfg))"

text \<open>The first path segment of a doc id: the top-level directory the document lives in.\<close>

definition doc_id_section :: "string \<Rightarrow> string" where
  "doc_id_section p = takeWhile (\<lambda>c. \<not> is_slash c) (dropWhile is_slash p)"

text \<open>
  A link target is internal when it names no protocol: it neither starts with
  \<^verbatim>\<open>//\<close> nor with word characters followed by a colon.
\<close>

definition is_word_char :: "char \<Rightarrow> bool" where
  "is_word_char c =
     (c \<in> set ''abcdefghijklmnopqrstuvwxyzABCDEFGHIJKLMNOPQRSTUVWXYZ0123456789_'')"

definition hasProtocol :: "string \<Rightarrow> bool" where
  "hasProtocol u =
     (prefix ''//'' u \<or>
      (case dropWhile is_word_char u of [] \<Rightarrow> False | c # rest \<Rightarrow> c = CHR '':''))"

definition is_internal_link :: "string \<Rightarrow> bool" where
  "is_internal_link u = (\<not> hasProtocol u)"

definition link_resolves :: "config \<Rightarrow> string list \<Rightarrow> string \<Rightarrow> bool" where
  "link_resolves cfg ids t = (t \<in> set (site_doc_routes cfg ids))"

section \<open>What the configuration refers to\<close>

text \<open>The sidebar ids the navbar items of type \<^verbatim>\<open>docSidebar\<close> name.\<close>

definition navbar_sidebar_ids :: "config \<Rightarrow> string list" where
  "navbar_sidebar_ids cfg =
     concat (map (\<lambda>item. case sidebarId item of None \<Rightarrow> [] | Some sid \<Rightarrow> [sid])
       (filter (\<lambda>item. navbar_item_type item = ''docSidebar'')
         (navbar_items (navbar (themeConfig cfg)))))"

text \<open>The internal targets of the footer: the \<^verbatim>\<open>to\<close> fields of its items.\<close>

fun footer_item_to :: "footer_item \<Rightarrow> string option" where
  "footer_item_to (FooterTo lbl t) = Some t"
| "footer_item_to (FooterHref lbl href) = None"

definition footer_internal_targets :: "config \<Rightarrow> string list" where
  "footer_internal_targets cfg =
     concat (map (\<lambda>(ttl, items).
         concat (map (\<lambda>item. case footer_item_to item of None \<Rightarrow> [] | Some t \<Rightarrow> [t]) items))
       (links (footer (themeConfig cfg))))"

section \<open>Markdown content\<close>

text \<open>
  What is kept of a markdown document: the lines of its front-matter block (the
  lines between the two \<^verbatim>\<open>---\<close> markers that open the file, when it has one), the
  targets of its markdown links \<^verbatim>\<open>[text](target)\<close> outside code fences, and the
  info string after the three backquotes that open each code fence; links and fences
  with the line of the source file they stand on. A source file that holds several
  documents gives one record for each (\<open>part\<close> counts them from 0).
\<close>

record content_doc =
  source_file :: string
  part :: nat
  front_matter :: "string list option"
  doc_links :: "(nat \<times> string) list"
  doc_fences :: "(nat \<times> string) list"

text \<open>\<^verbatim>\<open>docs/sdk/intro.md\<close>: GLIN SDK Overview\<close>

definition doc_sdk_intro :: content_doc where
  \<open>doc_sdk_intro =
    \<lparr> source_file = ''docs/sdk/intro.md'',
      part = 0,
      front_matter = None,
      doc_links =
        [ (15, ''https://www.npmjs.com/package/@glin-ai/sdk''),
          (20, ''https://github.com/glin-ai/glin-sdk''), (22, ''/sdk/typescript/setup''),
          (28, ''https://crates.io/crates/glin-client''),
          (34, ''https://github.com/glin-ai/glin-sdk-rust''), (36, ''/sdk/rust/setup''),
          (60, ''/sdk/getting-started/installation''),
          (61, ''/sdk/getting-started/quickstart''),
          (62, ''/sdk/examples/sign-in-with-glin''),
          (68, ''/sdk/core-concepts/authentication''),
          (69, ''/sdk/typescript/react-integration''),
          (70, ''/sdk/examples/deploy-contract''), (73, ''/sdk/typescript/setup''),
          (73, ''/sdk/rust/setup''), (74, ''/sdk/core-concepts/accounts''),
          (75, ''/sdk/examples/build-indexer''), (76, ''/sdk/contracts/deploying''),
          (79, ''/sdk/rust/setup''), (80, ''/sdk/rust/async-patterns''),
          (81, ''/sdk/examples/create-cli-tool''), (95, ''https://docs.glin.ai''),
          (96, ''https://discord.gg/glin-ai''), (97, ''https://twitter.com/glin_ai''),
          (98, ''mailto:dev@glin.ai''),
          (99, ''https://github.com/glin-ai/glin-sdk/issues'') ],
      doc_fences =
        [ (87, '''') ] \<rparr>\<close>

text \<open>\<^verbatim>\<open>docs/sdk/getting-started/overview.md\<close>: Getting Started\<close>

definition doc_sdk_getting_started_overview :: content_doc where
  \<open>doc_sdk_getting_started_overview =
    \<lparr> source_file = ''docs/sdk/getting-started/overview.md'',
      part = 0,
      front_matter = None,
      doc_links =
        [ (35, ''/sdk/typescript/setup''), (49, ''/sdk/rust/setup''),
          (53, ''/sdk/getting-started/installation''),
          (54, ''/sdk/getting-started/quickstart''),
          (55, ''/sdk/core-concepts/architecture''),
          (92, ''https://discord.gg/glin-ai''), (93, ''mailto:dev@glin.ai''),
          (94, ''https://github.com/glin-ai'') ],
      doc_fences =
        [ (31, ''bash''), (45, ''bash''), (73, ''typescript''), (82, ''rust'') ] \<rparr>\<close>

text \<open>\<^verbatim>\<open>docs/sdk/contracts/deploying.md\<close>: Deploying Contracts\<close>

definition doc_sdk_contracts_deploying :: content_doc where
  \<open>doc_sdk_contracts_deploying =
    \<lparr> source_file = ''docs/sdk/contracts/deploying.md'',
      part = 0,
      front_matter = None,
      doc_links =
        [ (12, ''/sdk/typescript/setup''), (12, ''/sdk/rust/setup''),
          (19, ''https://use.ink''), (843, ''/sdk/contracts/calling''),
          (844, ''/sdk/contracts/querying''), (845, ''/sdk/contracts/events''),
          (850, ''https://discord.gg/glin-ai''), (850, ''https://use.ink'') ],
      doc_fences =
        [ (36, ''bash''), (54, ''typescript title="deploy.ts"''), (133, ''bash''),
          (140, ''rust title="src/deploy.rs"''), (190, ''bash''), (198, ''''),
          (214, ''typescript title="estimate-gas.ts"''),
          (258, ''rust title="src/estimate_gas.rs"''),
          (312, ''typescript title="deploy-with-args.ts"''),
          (369, ''rust title="src/deploy_token.rs"''),
          (427, ''typescript title="verify.ts"''), (464, ''rust title="src/verify.rs"''),
          (510, ''typescript''), (531, ''rust''), (569, ''typescript''), (608, ''rust''),
          (674, ''typescript title="scripts/deploy.ts"''), (818, ''typescript'') ] \<rparr>\<close>

text \<open>\<^verbatim>\<open>docs/sdk/contracts/deploying.md (from line 851)\<close>: Contract Events\<close>

definition doc_sdk_contracts_deploying_1 :: content_doc where
  \<open>doc_sdk_contracts_deploying_1 =
    \<lparr> source_file = ''docs/sdk/contracts/deploying.md'',
      part = 1,
      front_matter = None,
      doc_links =
        [ (1635, ''/sdk/contracts/deploying''), (1636, ''/sdk/contracts/calling''),
          (1637, ''/sdk/examples/build-indexer''),
          (1641, ''https://discord.gg/glin-ai''), (1641, ''https://use.ink'') ],
      doc_fences =
        [ (877, ''rust''), (905, ''typescript title="listen-events.ts"''),
          (953, ''rust title="src/listen_events.rs"''),
          (1010, ''typescript title="listen-transfer-events.ts"''), (1047, ''rust''),
          (1103, ''typescript''), (1136, ''rust''),
          (1178, ''typescript title="query-historical-events.ts"''), (1221, ''rust''),
          (1278, ''typescript title="event-driven.ts"''), (1328, ''rust''),
          (1384, ''typescript title="indexer.ts"''), (1460, ''rust''),
          (1553, ''typescript''), (1581, ''typescript''), (1605, ''typescript'') ] \<rparr>\<close>

text \<open>\<^verbatim>\<open>docs/sdk/contracts/calling.md\<close>: Calling Contract Methods\<close>

definition doc_sdk_contracts_calling :: content_doc where
  \<open>doc_sdk_contracts_calling =
    \<lparr> source_file = ''docs/sdk/contracts/calling.md'',
      part = 0,
      front_matter = None,
      doc_links =
        [ (12, ''/docs/sdk/contracts/querying''),
          (19, ''/docs/sdk/contracts/deploying''),
          (752, ''/docs/sdk/contracts/querying''), (753, ''/docs/sdk/contracts/events''),
          (754, ''/docs/sdk/examples/deploy-contract''),
          (758, ''https://discord.gg/glin-ai''), (758, ''https://use.ink'') ],
      doc_fences =
        [ (30, ''typescript title="call-contract.ts"''),
          (78, ''rust title="src/call_contract.rs"''),
          (126, ''typescript title="call-with-return.ts"''),
          (174, ''rust title="src/increment.rs"''), (223, ''typescript''),
          (237, ''rust''), (263, ''typescript title="estimate-gas.ts"''),
          (293, ''rust title="src/estimate_gas.rs"''),
          (339, ''typescript title="handle-results.ts"''),
          (393, ''rust title="src/handle_results.rs"''),
          (438, ''typescript title="batch-calls.ts"''),
          (468, ''rust title="src/batch_calls.rs"''), (517, ''typescript''),
          (536, ''rust''), (572, ''typescript''), (595, ''rust''), (620, ''typescript''),
          (642, ''rust''), (677, ''typescript''), (688, ''typescript''),
          (702, ''typescript''), (716, ''typescript'') ] \<rparr>\<close>

text \<open>\<^verbatim>\<open>docs/sdk/typescript/setup.md\<close>: TypeScript SDK Setup\<close>

definition doc_sdk_typescript_setup :: content_doc where
  \<open>doc_sdk_typescript_setup =
    \<lparr> source_file = ''docs/sdk/typescript/setup.md'',
      part = 0,
      front_matter = None,
      doc_links =
        [ (333, ''/docs/sdk/typescript/browser-extensions''),
          (465, ''/docs/sdk/typescript/browser-extensions''),
          (466, ''/docs/sdk/typescript/react-integration''),
          (467, ''/docs/sdk/typescript/api-reference''),
          (468, ''/docs/sdk/typescript/examples''),
          (472, ''https://discord.gg/glin-ai''),
          (472, ''/docs/sdk/typescript/examples'') ],
      doc_fences =
        [ (15, ''bash''), (30, ''bash''),
          (38, ''typescript title="app/api/glin/route.ts"''),
          (52, ''typescript title="app/components/Balance.tsx"''), (76, ''bash''),
          (84, ''typescript title="vite.config.ts"''), (98, ''bash''),
          (106, ''vue title="src/components/Balance.vue"''), (128, ''bash''),
          (136, ''typescript title="server.ts"''), (154, ''bash''),
          (164, ''json title="tsconfig.json"''), (188, ''typescript''),
          (201, ''typescript''), (216, ''typescript''), (236, ''typescript''),
          (245, ''typescript''), (263, ''bash title=".env.local"''),
          (276, ''typescript''), (284, ''typescript''), (308, ''bash''),
          (314, ''typescript''), (341, ''typescript''), (353, ''typescript''),
          (364, ''typescript''), (393, ''json title=".vscode/launch.json"''),
          (413, ''bash''), (417, ''typescript title="tests/glin.test.ts"''),
          (443, ''bash''), (458, ''bash'') ] \<rparr>\<close>

text \<open>\<^verbatim>\<open>docs/sdk/examples/deploy-contract.md\<close>: Example: Deploy a Smart Contract\<close>

definition doc_sdk_examples_deploy_contract :: content_doc where
  \<open>doc_sdk_examples_deploy_contract =
    \<lparr> source_file = ''docs/sdk/examples/deploy-contract.md'',
      part = 0,
      front_matter = None,
      doc_links =
        [ (688, ''/docs/sdk/contracts/calling''),
          (689, ''/docs/sdk/contracts/querying''), (690, ''/docs/sdk/contracts/events''),
          (694, ''https://discord.gg/glin-ai'') ],
      doc_fences =
        [ (25, ''bash''), (31, ''bash''), (47, ''bash''),
          (59, ''rust title="src/main.rs"''), (302, ''toml title="Cargo.toml"''),
          (326, ''bash''), (341, ''''), (380, ''bash''), (392, ''bash''),
          (402, ''typescript title="deploy.ts"''), (559, ''json title="package.json"''),
          (587, ''bash''), (607, ''rust title="src/batch_deploy.rs"''), (650, ''bash''),
          (655, ''bash'') ] \<rparr>\<close>

text \<open>\<^verbatim>\<open>unnamed/part_001\<close>: GLIN Documentation Architecture Plan\<close>

definition part_001 :: content_doc where
  \<open>part_001 =
    \<lparr> source_file = ''unnamed/part_001'',
      part = 0,
      front_matter = None,
      doc_links =
        [],
      doc_fences =
        [ (36, ''''), (109, ''''), (116, ''''), (136, ''''), (153, ''''), (160, ''''),
          (167, ''''), (174, ''''), (215, ''markdown''), (221, ''markdown''),
          (227, ''markdown''), (235, ''markdown''), (242, ''markdown''), (260, ''bash''),
          (267, ''yaml''), (294, ''json''), (320, ''typescript''), (329, ''typescript''),
          (336, ''markdown''), (421, ''''), (459, ''bash'') ] \<rparr>\<close>

text \<open>\<^verbatim>\<open>unnamed/part_002\<close>: GLIN Network\<close>

definition part_002_0 :: content_doc where
  \<open>part_002_0 =
    \<lparr> source_file = ''unnamed/part_002'',
      part = 0,
      front_matter = Some [ ''sidebar_position: 1'' ],
      doc_links =
        [ (38, ''/network/getting-started''), (39, ''/network/validators''),
          (40, ''/network/tokenomics''), (41, ''/sdk/intro''),
          (42, ''/federated-learning/intro''), (48, ''https://explorer.glin.ai''),
          (52, ''https://discord.gg/glin-ai''), (53, ''https://github.com/glin-ai''),
          (54, ''https://twitter.com/glin_ai''), (58, ''/network/getting-started'') ],
      doc_fences =
        [] \<rparr>\<close>

text \<open>\<^verbatim>\<open>unnamed/part_002 (from line 59)\<close>: Rust SDK Setup\<close>

definition part_002_1 :: content_doc where
  \<open>part_002_1 =
    \<lparr> source_file = ''unnamed/part_002'',
      part = 1,
      front_matter = None,
      doc_links =
        [ (742, ''/docs/sdk/rust/cli-tools''), (743, ''/docs/sdk/rust/async-patterns''),
          (744, ''/docs/sdk/rust/api-reference''), (745, ''/docs/sdk/rust/examples''),
          (749, ''https://discord.gg/glin-ai''), (749, ''https://docs.rs/glin-client'') ],
      doc_fences =
        [ (75, ''bash''), (80, ''bash''), (87, ''bash''),
          (96, ''toml title="Cargo.toml"''), (122, ''bash''),
          (134, ''toml title="Cargo.toml"''), (143, ''rust title="src/main.rs"''),
          (187, ''toml title="Cargo.toml"''), (196, ''rust title="src/main.rs"''),
          (256, ''toml title="Cargo.toml"''), (264, ''rust title="src/main.rs"''),
          (308, ''rust''), (329, ''rust''), (355, ''rust''), (374, ''rust''),
          (415, ''bash title=".env"''), (428, ''toml title="Cargo.toml"''),
          (433, ''rust''), (451, ''rust''), (473, ''rust''),
          (493, ''toml title="Cargo.toml"''), (498, ''rust''), (507, ''rust''),
          (516, ''toml title="Cargo.toml"''), (521, ''rust''), (532, ''rust''),
          (556, ''rust''), (579, ''toml title="Cargo.toml"''), (585, ''rust''),
          (604, ''rust''), (629, ''bash''), (635, ''toml title="Cargo.toml"''),
          (644, ''rust title="benches/glin_bench.rs"''), (666, ''bash''),
          (675, ''bash''), (689, ''bash''), (700, ''rust''), (715, ''bash''),
          (725, ''dockerfile title="Dockerfile"'') ] \<rparr>\<close>

text \<open>\<^verbatim>\<open>unnamed/part_003\<close>: Example: Build Blockchain Indexer\<close>

definition part_003 :: content_doc where
  \<open>part_003 =
    \<lparr> source_file = ''unnamed/part_003'',
      part = 0,
      front_matter = None,
      doc_links =
        [ (1128, ''/sdk/examples/sign-in-with-glin''),
          (1129, ''/sdk/examples/deploy-contract''),
          (1130, ''/sdk/core-concepts/transactions''),
          (1134, ''https://discord.gg/glin-ai'') ],
      doc_fences =
        [ (24, ''''), (34, ''bash''), (45, ''bash''),
          (56, ''prisma title="prisma/schema.prisma"''),
          (126, ''sql title="migrations/001_create_tables.sql"''),
          (180, ''typescript title="src/db.ts"''),
          (215, ''typescript title="src/processor.ts"''),
          (294, ''typescript title="src/indexer.ts"''),
          (386, ''typescript title="src/index.ts"''),
          (425, ''typescript title="src/api.ts"''),
          (507, ''rust title="src/db/models.rs"''),
          (551, ''rust title="src/db/mod.rs"''),
          (688, ''rust title="src/processor.rs"''),
          (764, ''rust title="src/indexer.rs"''), (849, ''rust title="src/main.rs"''),
          (886, ''bash''), (903, ''bash''), (919, ''bash''), (924, ''json''),
          (938, ''bash''), (944, ''bash''), (950, ''bash''), (955, ''json''),
          (967, ''typescript''), (977, ''sql''), (989, ''typescript''),
          (1009, ''typescript''), (1026, ''typescript''), (1047, ''typescript''),
          (1070, ''typescript'') ] \<rparr>\<close>

text \<open>\<^verbatim>\<open>unnamed/part_004\<close>: Example: Sign in with GLIN\<close>

definition part_004 :: content_doc where
  \<open>part_004 =
    \<lparr> source_file = ''unnamed/part_004'',
      part = 0,
      front_matter = None,
      doc_links =
        [ (543, ''/docs/sdk/core-concepts/authentication''),
          (544, ''/docs/sdk/core-concepts/accounts''),
          (545, ''/docs/sdk/core-concepts/transactions''),
          (549, ''https://discord.gg/glin-ai'') ],
      doc_fences =
        [ (22, ''bash''), (35, ''typescript title="hooks/useGlinAuth.ts"''),
          (143, ''typescript title="app/login/page.tsx"''),
          (211, ''typescript title="app/dashboard/page.tsx"''),
          (280, ''typescript title="app/api/auth/signin/route.ts"''),
          (357, ''typescript title="lib/auth.ts"''),
          (385, ''typescript title="app/api/user/profile/route.ts"''),
          (411, ''prisma title="prisma/schema.prisma"''),
          (434, ''typescript title="lib/session.ts"''),
          (479, ''bash title=".env.local"''),
          (504, ''typescript title="__tests__/auth.test.ts"''), (530, ''bash'') ] \<rparr>\<close>

text \<open>\<^verbatim>\<open>unnamed/part_005\<close>: Example: Create CLI Tool\<close>

definition part_005 :: content_doc where
  \<open>part_005 =
    \<lparr> source_file = ''unnamed/part_005'',
      part = 0,
      front_matter = None,
      doc_links =
        [ (1312, ''/docs/sdk/examples/sign-in-with-glin''),
          (1313, ''/docs/sdk/examples/deploy-contract''),
          (1314, ''/docs/sdk/examples/build-indexer''),
          (1318, ''https://discord.gg/glin-ai'') ],
      doc_fences =
        [ (26, ''bash''), (37, ''bash''), (49, ''typescript title="src/cli.ts"''),
          (131, ''typescript title="src/commands/account.ts"''),
          (295, ''typescript title="src/commands/balance.ts"''),
          (331, ''typescript title="src/commands/transfer.ts"''),
          (444, ''typescript title="src/commands/config.ts"''),
          (496, ''typescript title="src/utils/storage.ts"''),
          (551, ''typescript title="src/index.ts"''),
          (558, ''json title="package.json"''), (582, ''rust title="src/main.rs"''),
          (727, ''rust title="src/commands/account.rs"''),
          (854, ''rust title="src/commands/balance.rs"''),
          (880, ''rust title="src/commands/transfer.rs"''),
          (974, ''rust title="src/config.rs"''),
          (1081, ''rust title="src/commands/config.rs"''),
          (1119, ''rust title="src/commands/mod.rs"''), (1130, ''bash''),
          (1146, ''bash''), (1161, ''bash''), (1177, ''bash''), (1189, ''bash''),
          (1206, ''bash''), (1225, ''typescript title="src/commands/history.ts"''),
          (1279, ''typescript'') ] \<rparr>\<close>

text \<open>\<^verbatim>\<open>unnamed/part_006\<close>: Querying Contract State\<close>

definition part_006 :: content_doc where
  \<open>part_006 =
    \<lparr> source_file = ''unnamed/part_006'',
      part = 0,
      front_matter = None,
      doc_links =
        [ (739, ''/sdk/contracts/calling''), (740, ''/sdk/contracts/events''),
          (741, ''/sdk/examples/deploy-contract''),
          (745, ''https://discord.gg/glin-ai''), (745, ''https://use.ink'') ],
      doc_fences =
        [ (29, ''typescript title="query-contract.ts"''),
          (66, ''rust title="src/query_contract.rs"''),
          (106, ''typescript title="query-with-args.ts"''), (132, ''rust''),
          (167, ''typescript title="batch-queries.ts"''), (199, ''rust''),
          (239, ''typescript''), (267, ''rust''), (308, ''typescript''), (361, ''rust''),
          (432, ''typescript''), (453, ''rust''), (490, ''typescript''), (524, ''rust''),
          (564, ''typescript''), (580, ''rust''), (605, ''typescript''), (634, ''rust''),
          (655, ''typescript''), (666, ''typescript''), (680, ''typescript''),
          (696, ''typescript'') ] \<rparr>\<close>

text \<open>\<^verbatim>\<open>unnamed/part_007\<close>: Federated Learning on GLIN\<close>

definition part_007_0 :: content_doc where
  \<open>part_007_0 =
    \<lparr> source_file = ''unnamed/part_007'',
      part = 0,
      front_matter = Some [ ''sidebar_position: 1'' ],
      doc_links =
        [ (79, ''/federated-learning/concepts/tasks''),
          (80, ''/federated-learning/concepts/gradients''),
          (81, ''/federated-learning/concepts/aggregation''),
          (82, ''/federated-learning/concepts/rewards''),
          (86, ''/federated-learning/getting-started/create-task''),
          (87, ''/federated-learning/getting-started/train-model''),
          (88, ''/federated-learning/getting-started/deploy-model''),
          (92, ''/federated-learning/examples/image-classification''),
          (93, ''/federated-learning/examples/nlp-training''),
          (94, ''/federated-learning/examples/federated-analytics''),
          (98, ''/federated-learning/getting-started/create-task'') ],
      doc_fences =
        [ (21, ''''), (47, ''bash''), (53, ''typescript'') ] \<rparr>\<close>

text \<open>\<^verbatim>\<open>unnamed/part_007 (from line 99)\<close>: Development Tools\<close>

definition part_007_1 :: content_doc where
  \<open>part_007_1 =
    \<lparr> source_file = ''unnamed/part_007'',
      part = 1,
      front_matter = Some [ ''sidebar_position: 1'' ],
      doc_links =
        [ (115, ''https://glinforge.com''), (136, ''https://glinforge.com''),
          (137, ''https://github.com/glin-forge/glin-forge''),
          (146, ''/sdk/typescript/setup''), (151, ''/sdk/rust/setup''),
          (169, ''https://discord.gg/glin-ai''),
          (170, ''https://github.com/glin-ai/glin/discussions''),
          (171, ''https://forum.glin.ai'') ],
      doc_fences =
        [ (126, ''bash'') ] \<rparr>\<close>

definition content_docs :: "content_doc list" where
  "content_docs =
    [ doc_sdk_intro, doc_sdk_getting_started_overview, doc_sdk_contracts_deploying,
      doc_sdk_contracts_deploying_1, doc_sdk_contracts_calling, doc_sdk_typescript_setup,
      doc_sdk_examples_deploy_contract, part_001, part_002_0, part_002_1, part_003,
      part_004, part_005, part_006, part_007_0, part_007_1 ]"

subsection \<open>Front matter\<close>

datatype fm_value = FmNumber nat | FmString string

definition digit_val :: "char \<Rightarrow> nat" where
  "digit_val c = length (takeWhile (\<lambda>d. d \<noteq> c) ''0123456789'')"

definition is_digit :: "char \<Rightarrow> bool" where
  "is_digit c = (c \<in> set ''0123456789'')"

definition decimal :: "string \<Rightarrow> nat" where
  "decimal s = foldl (\<lambda>a c. 10 * a + digit_val c) 0 s"

text \<open>
  Reading a front-matter line \<^verbatim>\<open>key: value\<close>: the key is what stands before the
  first colon, the value what follows it without the blanks at its start; the value is
  a number when it is all digits.
\<close>

definition parse_fm_line :: "string \<Rightarrow> (string \<times> fm_value) option" where
  "parse_fm_line l =
     (let key = takeWhile (\<lambda>c. c \<noteq> CHR '':'') l;
          rest = dropWhile (\<lambda>c. c \<noteq> CHR '':'') l
      in if rest = [] then None
         else let v = dropWhile (\<lambda>c. c = CHR '' '') (tl rest)
              in Some (key, if v \<noteq> [] \<and> list_all is_digit v then FmNumber (decimal v)
                            else FmString v))"

subsection \<open>Code fences\<close>

text \<open>The language tag of a fence is the first word of its info string, if it has one.\<close>

definition fence_language :: "string \<Rightarrow> string option" where
  "fence_language info =
     (let w = takeWhile (\<lambda>c. c \<noteq> CHR '' '') (dropWhile (\<lambda>c. c = CHR '' '') info)
      in if w = [] then None else Some w)"

definition fence_languages :: "content_doc \<Rightarrow> string option list" where
  "fence_languages d = map (\<lambda>(line, info). fence_language info) (doc_fences d)"



subsection \<open>Links\<close>

definition internal_links :: "content_doc \<Rightarrow> string list" where
  "internal_links d = filter is_internal_link (map snd (doc_links d))"

section \<open>Properties of the sidebar tree\<close>

lemma sdkSidebar_doc_ids:
  "sidebar_doc_ids sdkSidebar =
    [ ''sdk/intro'',
      ''sdk/getting-started/overview'', ''sdk/getting-started/installation'',
      ''sdk/getting-started/quickstart'',
      ''sdk/core-concepts/architecture'', ''sdk/core-concepts/authentication'',
      ''sdk/core-concepts/accounts'', ''sdk/core-concepts/transactions'',
      ''sdk/core-concepts/events'',
      ''sdk/contracts/deploying'', ''sdk/contracts/calling-methods'',
      ''sdk/contracts/querying-state'', ''sdk/contracts/metadata'',
      ''sdk/typescript/setup'', ''sdk/typescript/browser-extensions'',
      ''sdk/typescript/react-integration'', ''sdk/typescript/api-reference'',
      ''sdk/typescript/examples'',
      ''sdk/rust/setup'', ''sdk/rust/cli-tools'', ''sdk/rust/async-patterns'',
      ''sdk/rust/api-reference'', ''sdk/rust/examples'',
      ''sdk/examples/sign-in-with-glin'', ''sdk/examples/deploy-contract'',
      ''sdk/examples/build-indexer'', ''sdk/examples/create-cli-tool'' ]"
  by (simp add: sidebar_doc_ids_def sdkSidebar_def)

lemma blockchainSidebar_doc_ids:
  "sidebar_doc_ids blockchainSidebar =
    [ ''blockchain/intro'',
      ''blockchain/node/installation'', ''blockchain/node/configuration'',
      ''blockchain/node/development'',
      ''blockchain/validators/setup'', ''blockchain/validators/keys'',
      ''blockchain/validators/staking'',
      ''blockchain/architecture/overview'', ''blockchain/architecture/pallets'',
      ''blockchain/architecture/runtime'' ]"
  by (simp add: sidebar_doc_ids_def blockchainSidebar_def)

lemma sidebar_keys_sidebars: "sidebar_keys sidebars = [''sdkSidebar'', ''blockchainSidebar'']"
  by (simp add: sidebar_keys_def sidebars_def)

text \<open>
  Claim C9. Every doc id listed under \<open>sdkSidebar\<close> begins with \<^verbatim>\<open>sdk/\<close>, every doc
  id listed under \<open>blockchainSidebar\<close> begins with \<^verbatim>\<open>blockchain/\<close>, and no doc id
  occurs twice across the two sidebars.
\<close>

theorem sidebar_namespace_invariant:
  "list_all (prefix ''sdk/'') (sidebar_doc_ids sdkSidebar)
   \<and> list_all (prefix ''blockchain/'') (sidebar_doc_ids blockchainSidebar)
   \<and> distinct (sidebar_doc_ids sdkSidebar @ sidebar_doc_ids blockchainSidebar)"
proof (intro conjI)
  show "list_all (prefix ''sdk/'') (sidebar_doc_ids sdkSidebar)"
    unfolding sdkSidebar_doc_ids by simp
  show "list_all (prefix ''blockchain/'') (sidebar_doc_ids blockchainSidebar)"
    unfolding blockchainSidebar_doc_ids by simp
  show "distinct (sidebar_doc_ids sdkSidebar @ sidebar_doc_ids blockchainSidebar)"
    unfolding sdkSidebar_doc_ids blockchainSidebar_doc_ids by simp
qed

section \<open>Evaluating the configuration module\<close>

subsection \<open>The year in the copyright line\<close>

declare digits.simps [simp del]

lemma less_10_cases:
  "(d::nat) < 10 \<Longrightarrow>
     d = 0 \<or> d = 1 \<or> d = 2 \<or> d = 3 \<or> d = 4 \<or> d = 5 \<or> d = 6 \<or> d = 7 \<or> d = 8 \<or> d = 9"
  by arith

lemma digit_val_digit_char:
  assumes "d < 10"
  shows "digit_val (digit_char d) = d"
  using less_10_cases [OF assms] by (elim disjE) (simp_all add: digit_val_def digit_char_def)

lemma digit_char_is_digit: "is_digit (digit_char d)"
proof -
  have "d mod 10 < 10" by simp
  from less_10_cases [OF this] show ?thesis
    by (elim disjE) (simp_all add: is_digit_def digit_char_def)
qed

lemma decimal_snoc: "decimal (s @ [c]) = 10 * decimal s + digit_val c"
  by (simp add: decimal_def)

text \<open>Reading the digits back gives the number: printing loses nothing.\<close>

lemma decimal_digits: "decimal (digits n) = n"
proof (induction n rule: digits.induct)
  case (1 n)
  show ?case
  proof (cases "n < 10")
    case True
    then show ?thesis
      by (simp add: digits.simps [of n] decimal_def digit_val_digit_char)
  next
    case False
    with "1" have "decimal (digits (n div 10)) = n div 10" by simp
    with False show ?thesis
      by (simp add: digits.simps [of n] decimal_snoc digit_val_digit_char)
  qed
qed

lemma digits_inj: "digits m = digits n \<Longrightarrow> m = n"
  by (metis decimal_digits)

lemma digits_all_digits: "list_all is_digit (digits n)"
proof (induction n rule: digits.induct)
  case (1 n)
  then show ?case
    by (cases "n < 10") (simp_all add: digits.simps [of n] digit_char_is_digit)
qed

lemma digits_no_minus: "digits n \<noteq> CHR ''-'' # s"
proof
  assume "digits n = CHR ''-'' # s"
  with digits_all_digits [of n] have "is_digit CHR ''-''" by simp
  then show False by (simp add: is_digit_def)
qed

lemma number_to_string_inj: "number_to_string i = number_to_string j \<Longrightarrow> i = j"
proof -
  assume eq: "number_to_string i = number_to_string j"
  consider "i < 0" "j < 0" | "i < 0" "\<not> j < 0" | "\<not> i < 0" "j < 0" | "\<not> i < 0" "\<not> j < 0"
    by blast
  then show "i = j"
  proof cases
    case 1
    with eq have "digits (nat (- i)) = digits (nat (- j))" by (simp add: number_to_string_def)
    then have "nat (- i) = nat (- j)" by (rule digits_inj)
    with 1 show ?thesis by simp
  next
    case 2
    with eq have "digits (nat j) = CHR ''-'' # digits (nat (- i))"
      by (simp add: number_to_string_def)
    with digits_no_minus show ?thesis by blast
  next
    case 3
    with eq have "digits (nat i) = CHR ''-'' # digits (nat (- j))"
      by (simp add: number_to_string_def)
    with digits_no_minus show ?thesis by blast
  next
    case 4
    with eq have "digits (nat i) = digits (nat j)" by (simp add: number_to_string_def)
    then have "nat i = nat j" by (rule digits_inj)
    with 4 show ?thesis by simp
  qed
qed

lemma copyright_text_inj: "copyright_text y1 = copyright_text y2 \<Longrightarrow> y1 = y2"
  by (rule number_to_string_inj) (simp add: copyright_text_def)

lemma config_eq_iff_copyright:
  "config y1 = config y2 \<longleftrightarrow> copyright_text y1 = copyright_text y2"
  by (simp add: config_def site_theme_config_def)

lemma copyright_2025:
  "copyright_text 2025 =
     ''Copyright '' @ [CHR 0xC3, CHR 0x82, CHR 0xC2, CHR 0xA9]
       @ '' 2025 GLIN AI. Built with Docusaurus.''"
  by (simp add: copyright_text_def number_to_string_def digits.simps digit_char_def)

text \<open>
  Claim C6, as stated: any two evaluations of the configuration module, at any two
  times, give equal configurations. It fails: an evaluation in 2025 and one in 2026
  differ.
\<close>

theorem config_differs_between_years: "config 2025 \<noteq> config 2026"
  by (simp add: config_def site_theme_config_def copyright_text_def number_to_string_def
      digits.simps digit_char_def)

text \<open>
  Claim C6, amended. Two evaluations of the configuration module give equal
  configurations exactly when the clock gives them the same year. The year enters the
  footer's copyright line and nothing else: with the copyright line set aside, any two
  evaluations agree. (The model passes no state but the year read from the clock.)
\<close>

theorem config_equal_iff_same_year:
  "(config y1 = config y2 \<longleftrightarrow> y1 = y2)
   \<and> copyright (footer (themeConfig (config y1))) = copyright_text y1
   \<and> with_copyright c (config y1) = with_copyright c (config y2)"
proof (intro conjI)
  show "config y1 = config y2 \<longleftrightarrow> y1 = y2"
    using copyright_text_inj config_eq_iff_copyright by blast
  show "copyright (footer (themeConfig (config y1))) = copyright_text y1"
    by (simp add: config_def site_theme_config_def)
  show "with_copyright c (config y1) = with_copyright c (config y2)"
    by (simp add: with_copyright_def config_def site_theme_config_def)
qed

subsection \<open>Fields of the configuration\<close>

lemma presets_config: "presets (config year) = [(''classic'', classic_options)]"
  by (simp add: config_def)

lemma docs_plugin_options_config:
  "docs_plugin_options (config year) =
     [\<lparr> routeBasePath = ''/'', sidebarPath = ''./sidebars.ts'',
        editUrl = ''https://github.com/glin-ai/glin-docs/tree/main/'',
        showLastUpdateTime = True, showLastUpdateAuthor = True \<rparr>]"
  by (simp add: docs_plugin_options_def presets_config classic_options_def)

lemma baseUrl_config: "baseUrl (config year) = ''/''"
  by (simp add: config_def)

lemma join_url_root: "join_url ''/'' b = ''/'' @ dropWhile is_slash b"
  by (simp add: join_url_def is_slash_def)

lemma site_doc_routes_config:
  "site_doc_routes (config year) ids = map (\<lambda>p. ''/'' @ dropWhile is_slash p) ids"
  by (simp add: site_doc_routes_def docs_plugin_options_config baseUrl_config doc_route_def
      join_url_root) (simp add: is_slash_def)

lemma navbar_sidebar_ids_config:
  "navbar_sidebar_ids (config year) =
     [''networkSidebar'', ''sdkSidebar'', ''federatedLearningSidebar'', ''toolsSidebar'',
      ''blockchainSidebar'']"
  by (simp add: navbar_sidebar_ids_def config_def site_theme_config_def site_navbar_def)

lemma footer_internal_targets_config:
  "footer_internal_targets (config year) =
     [''/sdk/intro'', ''/sdk/typescript/setup'', ''/sdk/rust/setup'']"
  by (simp add: footer_internal_targets_def config_def site_theme_config_def footer_links_def)

section \<open>The configuration against the sidebars\<close>

text \<open>
  Claim C2. Every navbar item of type \<^verbatim>\<open>docSidebar\<close> names, by its
  \<^verbatim>\<open>sidebarId\<close>, a key of the sidebars object. The source breaks it: the first
  navbar item names \<^verbatim>\<open>networkSidebar\<close>, and \<^verbatim>\<open>sidebars.ts\<close> defines
  \<^verbatim>\<open>sdkSidebar\<close> and \<^verbatim>\<open>blockchainSidebar\<close> only. Three of the five ids the navbar
  names are no key of the sidebars object.
\<close>

theorem navbar_names_undefined_sidebars:
  "DocSidebar ''networkSidebar'' ''left'' ''Network''
     \<in> set (navbar_items (navbar (themeConfig (config year))))
   \<and> ''networkSidebar'' \<notin> set (sidebar_keys sidebars)
   \<and> filter (\<lambda>sid. sid \<notin> set (sidebar_keys sidebars)) (navbar_sidebar_ids (config year))
       = [''networkSidebar'', ''federatedLearningSidebar'', ''toolsSidebar'']"
proof (intro conjI)
  show "DocSidebar ''networkSidebar'' ''left'' ''Network''
     \<in> set (navbar_items (navbar (themeConfig (config year))))"
    by (simp add: config_def site_theme_config_def site_navbar_def)
  show "''networkSidebar'' \<notin> set (sidebar_keys sidebars)"
    by (simp add: sidebar_keys_sidebars)
  show "filter (\<lambda>sid. sid \<notin> set (sidebar_keys sidebars)) (navbar_sidebar_ids (config year))
       = [''networkSidebar'', ''federatedLearningSidebar'', ''toolsSidebar'']"
    by (simp add: sidebar_keys_sidebars navbar_sidebar_ids_config)
qed

text \<open>
  Claim C5. With \<^verbatim>\<open>baseUrl\<close> and \<^verbatim>\<open>routeBasePath\<close> both \<^verbatim>\<open>/\<close>, the route of a
  document is its doc id after one slash (a doc id is a relative path: slashes at its
  start would be dropped); so it is for every doc id of the sidebars. The internal
  targets of the footer are \<^verbatim>\<open>/sdk/intro\<close>, \<^verbatim>\<open>/sdk/typescript/setup\<close> and
  \<^verbatim>\<open>/sdk/rust/setup\<close>, and each is the route of a document listed in \<open>sdkSidebar\<close>.
\<close>

theorem footer_links_are_sdk_routes:
  "baseUrl (config year) = ''/''
   \<and> map routeBasePath (docs_plugin_options (config year)) = [''/'']
   \<and> site_doc_routes (config year) [p] = [''/'' @ dropWhile is_slash p]
   \<and> list_all (\<lambda>p. site_doc_routes (config year) [p] = [''/'' @ p])
        (all_sidebar_doc_ids sidebars)
   \<and> footer_internal_targets (config year) =
        [''/sdk/intro'', ''/sdk/typescript/setup'', ''/sdk/rust/setup'']
   \<and> list_all (\<lambda>t. t \<in> set (site_doc_routes (config year) (sidebar_doc_ids sdkSidebar)))
        (footer_internal_targets (config year))"
proof (intro conjI)
  show "baseUrl (config year) = ''/''" by (rule baseUrl_config)
  show "map routeBasePath (docs_plugin_options (config year)) = [''/'']"
    by (simp add: docs_plugin_options_config)
  show "site_doc_routes (config year) [p] = [''/'' @ dropWhile is_slash p]"
    by (simp add: site_doc_routes_config)
  show "list_all (\<lambda>p. site_doc_routes (config year) [p] = [''/'' @ p])
        (all_sidebar_doc_ids sidebars)"
    by (simp add: site_doc_routes_config all_sidebar_doc_ids_def sidebars_def
        sdkSidebar_doc_ids blockchainSidebar_doc_ids is_slash_def)
  show "footer_internal_targets (config year) =
        [''/sdk/intro'', ''/sdk/typescript/setup'', ''/sdk/rust/setup'']"
    by (rule footer_internal_targets_config)
  show "list_all (\<lambda>t. t \<in> set (site_doc_routes (config year) (sidebar_doc_ids sdkSidebar)))
        (footer_internal_targets (config year))"
    by (simp add: footer_internal_targets_config site_doc_routes_config sdkSidebar_doc_ids
        is_slash_def)
qed

section \<open>Links of the markdown content\<close>

lemmas doc_defs = doc_sdk_intro_def doc_sdk_getting_started_overview_def
  doc_sdk_contracts_deploying_def doc_sdk_contracts_deploying_1_def
  doc_sdk_contracts_calling_def doc_sdk_typescript_setup_def
  doc_sdk_examples_deploy_contract_def part_001_def part_002_0_def part_002_1_def
  part_003_def part_004_def part_005_def part_006_def part_007_0_def part_007_1_def

text \<open>
  A route that starts with \<^verbatim>\<open>/docs/\<close> can only be the route of a document whose
  doc id has \<^verbatim>\<open>docs\<close> as its first segment.
\<close>

lemma docs_route_section:
  assumes "prefix ''/docs/'' t" and "t \<in> set (site_doc_routes (config year) ids)"
  shows "\<exists>p \<in> set ids. doc_id_section p = ''docs''"
proof -
  from assms(2) obtain p where p: "p \<in> set ids" and t: "t = ''/'' @ dropWhile is_slash p"
    by (auto simp: site_doc_routes_config)
  from assms(1) t obtain r where "dropWhile is_slash p = ''docs/'' @ r"
    by (auto simp: prefix_def)
  then have "doc_id_section p = ''docs''"
    by (simp add: doc_id_section_def is_slash_def)
  with p show ?thesis by blast
qed

text \<open>The internal links of the content that start with \<^verbatim>\<open>/docs/\<close>, document by document.\<close>

lemma docs_prefixed_links:
  "map (\<lambda>d. (source_file d, part d, filter (prefix ''/docs/'') (internal_links d)))
      [doc_sdk_contracts_calling, doc_sdk_typescript_setup, doc_sdk_examples_deploy_contract,
       part_002_1, part_004, part_005] =
   [ (''docs/sdk/contracts/calling.md'', 0,
       [ ''/docs/sdk/contracts/querying'', ''/docs/sdk/contracts/deploying'',
         ''/docs/sdk/contracts/querying'', ''/docs/sdk/contracts/events'',
         ''/docs/sdk/examples/deploy-contract'' ]),
     (''docs/sdk/typescript/setup.md'', 0,
       [ ''/docs/sdk/typescript/browser-extensions'',
         ''/docs/sdk/typescript/browser-extensions'',
         ''/docs/sdk/typescript/react-integration'', ''/docs/sdk/typescript/api-reference'',
         ''/docs/sdk/typescript/examples'', ''/docs/sdk/typescript/examples'' ]),
     (''docs/sdk/examples/deploy-contract.md'', 0,
       [ ''/docs/sdk/contracts/calling'', ''/docs/sdk/contracts/querying'',
         ''/docs/sdk/contracts/events'' ]),
     (''unnamed/part_002'', 1,
       [ ''/docs/sdk/rust/cli-tools'', ''/docs/sdk/rust/async-patterns'',
         ''/docs/sdk/rust/api-reference'', ''/docs/sdk/rust/examples'' ]),
     (''unnamed/part_004'', 0,
       [ ''/docs/sdk/core-concepts/authentication'', ''/docs/sdk/core-concepts/accounts'',
         ''/docs/sdk/core-concepts/transactions'' ]),
     (''unnamed/part_005'', 0,
       [ ''/docs/sdk/examples/sign-in-with-glin'', ''/docs/sdk/examples/deploy-contract'',
         ''/docs/sdk/examples/build-indexer'' ]) ]"
  by (simp add: doc_defs internal_links_def is_internal_link_def hasProtocol_def
      is_word_char_def)

text \<open>
  Claim C3. Every internal link target of the content is an existing route, the route
  of a document being its doc id joined to the route base path \<^verbatim>\<open>/\<close>. The source
  breaks it: line 12 of \<^verbatim>\<open>docs/sdk/contracts/calling.md\<close> links to
  \<^verbatim>\<open>/docs/sdk/contracts/querying\<close>. Doc ids are paths below the \<^verbatim>\<open>docs\<close> directory,
  so in any docs tree that has no \<^verbatim>\<open>docs\<close> directory of its own inside it, neither
  this target nor any other that starts with \<^verbatim>\<open>/docs/\<close> is a route.
\<close>

theorem docs_prefixed_links_do_not_resolve:
  assumes "list_all (\<lambda>p. doc_id_section p \<noteq> ''docs'') ids"
  shows "(12, ''/docs/sdk/contracts/querying'') \<in> set (doc_links doc_sdk_contracts_calling)
     \<and> is_internal_link ''/docs/sdk/contracts/querying''
     \<and> \<not> link_resolves (config year) ids ''/docs/sdk/contracts/querying''
     \<and> (\<forall>t. prefix ''/docs/'' t \<longrightarrow> \<not> link_resolves (config year) ids t)"
proof -
  have gen: "\<not> link_resolves (config year) ids t" if "prefix ''/docs/'' t" for t
    using docs_route_section [OF that] assms
    by (auto simp: link_resolves_def list_all_iff)
  have "prefix ''/docs/'' ''/docs/sdk/contracts/querying''" by simp
  then have "\<not> link_resolves (config year) ids ''/docs/sdk/contracts/querying''"
    by (rule gen)
  moreover
  have "(12, ''/docs/sdk/contracts/querying'') \<in> set (doc_links doc_sdk_contracts_calling)"
    by (simp add: doc_sdk_contracts_calling_def)
  moreover have "is_internal_link ''/docs/sdk/contracts/querying''"
    by (simp add: is_internal_link_def hasProtocol_def is_word_char_def)
  ultimately show ?thesis using gen by blast
qed

text \<open>
  The docs tree the sidebars describe has no such directory, and there the link of line
  742 of \<^verbatim>\<open>unnamed/part_002\<close> is no route, although \<^verbatim>\<open>sdk/rust/cli-tools\<close> is a doc id
  of \<open>sdkSidebar\<close> and the same target without \<^verbatim>\<open>/docs\<close> is its route.
\<close>

theorem docs_prefixed_links_do_not_resolve_witness:
  "list_all (\<lambda>p. doc_id_section p \<noteq> ''docs'') (all_sidebar_doc_ids sidebars)
   \<and> prefix ''/docs/'' ''/docs/sdk/rust/cli-tools''
   \<and> \<not> link_resolves (config 2025) (all_sidebar_doc_ids sidebars) ''/docs/sdk/rust/cli-tools''
   \<and> link_resolves (config 2025) (all_sidebar_doc_ids sidebars) ''/sdk/rust/cli-tools''"
proof -
  have h: "list_all (\<lambda>p. doc_id_section p \<noteq> ''docs'') (all_sidebar_doc_ids sidebars)"
    by (simp add: all_sidebar_doc_ids_def sidebars_def sdkSidebar_doc_ids
        blockchainSidebar_doc_ids doc_id_section_def is_slash_def)
  have p: "prefix ''/docs/'' ''/docs/sdk/rust/cli-tools''" by simp
  have r: "link_resolves (config 2025) (all_sidebar_doc_ids sidebars) ''/sdk/rust/cli-tools''"
    by (simp add: link_resolves_def site_doc_routes_config all_sidebar_doc_ids_def
        sidebars_def sdkSidebar_doc_ids blockchainSidebar_doc_ids is_slash_def)
  from docs_prefixed_links_do_not_resolve [OF h, of 2025] p
  have "\<not> link_resolves (config 2025) (all_sidebar_doc_ids sidebars) ''/docs/sdk/rust/cli-tools''"
    by blast
  with h p r show ?thesis by simp
qed

section \<open>Code fences of the markdown content\<close>

lemma additionalLanguages_config:
  "additionalLanguages (prism (themeConfig (config year))) =
     [''rust'', ''toml'', ''bash'', ''json'']"
  by (simp add: config_def site_theme_config_def)




















text \<open>
  The tags \<^verbatim>\<open>vue\<close>, \<^verbatim>\<open>prisma\<close> and \<^verbatim>\<open>dockerfile\<close> are in use (line 106 of
  \<^verbatim>\<open>docs/sdk/typescript/setup.md\<close>, line 56 of \<^verbatim>\<open>unnamed/part_003\<close>, line 725 of
  \<^verbatim>\<open>unnamed/part_002\<close>) and the prism configuration loads none of them.
\<close>

lemma tags_in_use_not_loaded:
  "Some ''vue'' \<in> set (fence_languages doc_sdk_typescript_setup)
   \<and> Some ''prisma'' \<in> set (fence_languages part_003)
   \<and> Some ''dockerfile'' \<in> set (fence_languages part_002_1)
   \<and> list_all (\<lambda>l. l \<notin> set (additionalLanguages (prism (themeConfig (config year)))))
        [''vue'', ''prisma'', ''dockerfile'']"
proof (intro conjI)
  show "Some ''vue'' \<in> set (fence_languages doc_sdk_typescript_setup)"
    by (simp add: doc_sdk_typescript_setup_def fence_languages_def fence_language_def)
  show "Some ''prisma'' \<in> set (fence_languages part_003)"
    by (simp add: part_003_def fence_languages_def fence_language_def)
  show "Some ''dockerfile'' \<in> set (fence_languages part_002_1)"
    by (simp add: part_002_1_def fence_languages_def fence_language_def)
  show "list_all (\<lambda>l. l \<notin> set (additionalLanguages (prism (themeConfig (config year)))))
        [''vue'', ''prisma'', ''dockerfile'']"
    by (simp add: additionalLanguages_config)
qed





section \<open>Front matter of the markdown content\<close>

lemma front_matter_content_docs:
  "map front_matter content_docs =
     [ None, None, None, None, None, None, None, None,
       Some [''sidebar_position: 1''], None, None, None, None, None,
       Some [''sidebar_position: 1''], Some [''sidebar_position: 1''] ]"
  by (simp add: content_docs_def doc_defs)

lemma parse_sidebar_position:
  "parse_fm_line ''sidebar_position: 1'' = Some (''sidebar_position'', FmNumber 1)"
  by (simp add: parse_fm_line_def is_digit_def decimal_def digit_val_def)

text \<open>
  Claim C8. In every markdown document that has a front-matter block, the block is one
  line, and the line binds the key \<^verbatim>\<open>sidebar_position\<close> to a number (the number 1 in
  each of them).
\<close>

theorem front_matter_only_sidebar_position:
  "\<forall>d \<in> set content_docs. \<forall>ls. front_matter d = Some ls \<longrightarrow>
     map parse_fm_line ls = [Some (''sidebar_position'', FmNumber 1)]"
proof -
  have "\<forall>fm \<in> set (map front_matter content_docs). \<forall>ls. fm = Some ls \<longrightarrow>
     map parse_fm_line ls = [Some (''sidebar_position'', FmNumber 1)]"
    unfolding front_matter_content_docs by (simp add: parse_sidebar_position)
  then show ?thesis by simp
qed

text \<open>The network introduction (\<^verbatim>\<open>unnamed/part_002\<close>) is such a document.\<close>

theorem front_matter_only_sidebar_position_witness:
  "part_002_0 \<in> set content_docs
   \<and> front_matter part_002_0 = Some [''sidebar_position: 1'']
   \<and> map parse_fm_line [''sidebar_position: 1''] = [Some (''sidebar_position'', FmNumber 1)]"
proof -
  have m: "part_002_0 \<in> set content_docs" by (simp add: content_docs_def)
  have f: "front_matter part_002_0 = Some [''sidebar_position: 1'']"
    by (simp add: part_002_0_def)
  from front_matter_only_sidebar_position m f
  have "map parse_fm_line [''sidebar_position: 1''] = [Some (''sidebar_position'', FmNumber 1)]"
    by blast
  with m f show ?thesis by simp
qed

end
